theory Spec2Isabelle
  imports Main
begin

section \<open>JavaScript values of the patched handlers\<close>

text \<open>
  The repository's sources are patch scripts; what each one writes into the TypeScript
  handlers (\<^verbatim>\<open>pages/api/a2p/sync.ts\<close>, \<^verbatim>\<open>pages/api/a2p/status-callback.ts\<close>) is the
  code embedded here. A value of type \<^verbatim>\<open>string | undefined | null\<close> is a
  \<open>string option\<close>; \<open>None\<close> stands for both \<^verbatim>\<open>undefined\<close> and \<^verbatim>\<open>null\<close>.
\<close>

definition truthy :: "string option \<Rightarrow> bool" where
  "truthy v = (case v of None \<Rightarrow> False | Some s \<Rightarrow> s \<noteq> [])"

text \<open>\<^verbatim>\<open>a || b\<close> on optional strings.\<close>

definition js_or :: "string option \<Rightarrow> string option \<Rightarrow> string option" where
  "js_or a b = (if truthy a then a else b)"

text \<open>\<^verbatim>\<open>String(v || "")\<close>.\<close>

definition String_or_empty :: "string option \<Rightarrow> string" where
  "String_or_empty v = (case js_or v (Some []) of None \<Rightarrow> [] | Some s \<Rightarrow> s)"

text \<open>\<^verbatim>\<open>toLowerCase\<close> on the ASCII letters (status strings are ASCII).\<close>

definition lower_char :: "char \<Rightarrow> char" where
  "lower_char c =
     (case map_of (zip ''ABCDEFGHIJKLMNOPQRSTUVWXYZ'' ''abcdefghijklmnopqrstuvwxyz'') c of
        None \<Rightarrow> c
      | Some d \<Rightarrow> d)"

definition toLowerCase :: "string \<Rightarrow> string" where
  "toLowerCase s = map lower_char s"

definition startsWith :: "string \<Rightarrow> string \<Rightarrow> bool" where
  "startsWith s p = (take (length p) s = p)"

section \<open>Effects: thrown errors, the console, the stored profile\<close>

datatype js_error = JsError (message: "string option")

datatype 'a outcome = Returns 'a | Throws js_error

record user =
  registrationStatus :: "string option"
  user_messagingReady :: "bool option"

text \<open>The fields of the \<^verbatim>\<open>A2PProfile\<close> document that the patched code reads or writes.\<close>

record a2p_profile =
  doc_messagingServiceSid :: "string option"
  doc_campaignSid :: "string option"
  doc_usa2pSid :: "string option"
  doc_brandSid :: "string option"
  doc_lastSyncedAt :: "nat option"
  doc_lastError :: "string option"
  approvalNotifiedAt :: "nat option"
  doc_messagingReady :: bool
  applicationStatus :: "string option"

datatype warn_arg = WarnText string | WarnError js_error

datatype event =
    ChargeCalled "user option"
  | ConsoleWarn string warn_arg

record world =
  db :: a2p_profile
  events :: "event list"

text \<open>
  A statement runs on a state \<open>'s\<close> and either completes or throws; the state it leaves
  is kept in both cases, as assignments done before a \<^verbatim>\<open>throw\<close> are.
\<close>

type_synonym 's stmt = "'s \<Rightarrow> (js_error + unit) \<times> 's"

definition js_skip :: "'s stmt" where
  "js_skip s = (Inr (), s)"

definition js_then :: "'s stmt \<Rightarrow> 's stmt \<Rightarrow> 's stmt" where
  "js_then a b s = (case a s of (Inl e, s') \<Rightarrow> (Inl e, s') | (Inr _, s') \<Rightarrow> b s')"

definition try_catch :: "'s stmt \<Rightarrow> (js_error \<Rightarrow> 's stmt) \<Rightarrow> 's stmt" where
  "try_catch body handler s =
     (case body s of (Inl e, s') \<Rightarrow> handler e s' | (Inr u, s') \<Rightarrow> (Inr u, s'))"

definition charge_calls :: "event list \<Rightarrow> nat" where
  "charge_calls evs = length (filter (\<lambda>ev. case ev of ChargeCalled _ \<Rightarrow> True | _ \<Rightarrow> False) evs)"

section \<open>The billing call and its try/catch\<close>

text \<open>
  \<^verbatim>\<open>await chargeA2PApprovalIfNeeded({ user })\<close>: the payment gateway is outside the
  repository; \<open>charge\<close> says whether the call returns or throws for this user. Every
  call is recorded.
\<close>

definition await_charge :: "(user option \<Rightarrow> unit outcome) \<Rightarrow> user option \<Rightarrow> world stmt" where
  "await_charge charge u w =
     (case charge u of Returns _ \<Rightarrow> Inr () | Throws e \<Rightarrow> Inl e,
      w\<lparr>events := events w @ [ChargeCalled u]\<rparr>)"

text \<open>
  \<^verbatim>\<open>console.warn("[A2P] approval fee charge failed (non-fatal):", e?.message || e)\<close>.
\<close>

definition warn_payload :: "js_error \<Rightarrow> warn_arg" where
  "warn_payload e =
     (case message e of
        None \<Rightarrow> WarnError e
      | Some m \<Rightarrow> if m \<noteq> [] then WarnText m else WarnError e)"

definition warn_charge_failed :: "js_error \<Rightarrow> world stmt" where
  "warn_charge_failed e w =
     (Inr (),
      w\<lparr>events := events w @
          [ConsoleWarn ''[A2P] approval fee charge failed (non-fatal):'' (warn_payload e)]\<rparr>)"

text \<open>
  \<^verbatim>\<open>patch_insert_a2p_charge_inside_approvalNotified_gate.py\<close>, lines 11-15: the block put
  first inside each \<^verbatim>\<open>if (!doc.approvalNotifiedAt) {\<close> of sync.ts.
\<close>

definition sync_charge_block :: "(user option \<Rightarrow> unit outcome) \<Rightarrow> user option \<Rightarrow> world stmt" where
  "sync_charge_block charge u = try_catch (await_charge charge u) warn_charge_failed"

text \<open>
  The gate of sync.ts after the patch: the charge block, then \<open>rest\<close>, the statements
  the gate held before the patch (they are not part of the sources).
\<close>

definition approval_gate ::
  "(user option \<Rightarrow> unit outcome) \<Rightarrow> world stmt \<Rightarrow> a2p_profile \<Rightarrow> user option \<Rightarrow> world stmt" where
  "approval_gate charge rest doc u =
     (if approvalNotifiedAt doc = None
      then js_then (sync_charge_block charge u) rest
      else js_skip)"

text \<open>
  \<^verbatim>\<open>patch_guard_a2p_charge_status_callback.py\<close>, lines 21-30 (status-callback.ts).
\<close>

definition wasReady :: "user option \<Rightarrow> bool" where
  "wasReady u =
     (case u of
        None \<Rightarrow> False
      | Some x \<Rightarrow> registrationStatus x = Some ''ready'' \<or> user_messagingReady x = Some True)"

definition callback_charge_block ::
  "(user option \<Rightarrow> unit outcome) \<Rightarrow> bool \<Rightarrow> user option \<Rightarrow> world stmt" where
  "callback_charge_block charge messagingReady u =
     try_catch
       (if messagingReady \<and> \<not> wasReady u then await_charge charge u else js_skip)
       warn_charge_failed"

section \<open>sync.ts: adopting the canonical campaign\<close>

text \<open>
  \<^verbatim>\<open>patch_a2p_sync_twilio_truth_always_scan_v2.py\<close>, the replacement text (lines 26-83).
  The local variables of the handler that the block reads and assigns:
\<close>

record sync_vars =
  messagingServiceSid :: "string option"
  campaignSid :: "string option"
  brandSid :: "string option"
  campStatus :: "string option"

text \<open>What \<^verbatim>\<open>tryFetchCampaignTenant\<close> returns when it finds the campaign.\<close>

record campaign_resource =
  status :: "string option"
  state :: "string option"

text \<open>What \<^verbatim>\<open>scanTwilioForCanonicalCampaignTenant\<close> returns when it finds one.\<close>

record canonical =
  canonical_campaignSid :: "string option"
  canonical_messagingServiceSid :: "string option"
  canonical_brandSid :: "string option"
  canonical_campaignStatus :: "string option"

text \<open>\<^verbatim>\<open>canonical?.field\<close>.\<close>

definition opt_field :: "('a \<Rightarrow> string option) \<Rightarrow> 'a option \<Rightarrow> string option" where
  "opt_field f x = (case x of None \<Rightarrow> None | Some y \<Rightarrow> f y)"

text \<open>Lines 28-33: \<^verbatim>\<open>currentStatus\<close> stays undefined unless the fetch found the campaign.\<close>

definition currentStatus_of :: "campaign_resource option \<Rightarrow> string option" where
  "currentStatus_of fetched =
     (case fetched of None \<Rightarrow> None | Some f \<Rightarrow> js_or (status f) (state f))"

text \<open>
  Lines 42-45. \<^verbatim>\<open>CAMPAIGN_APPROVED\<close> (a set of lower-case status names) and
  \<^verbatim>\<open>scoreCampaignStatus\<close> are constants of sync.ts that the sources do not contain:
  they are parameters.
\<close>

definition currentApproved :: "string set \<Rightarrow> string option \<Rightarrow> string option \<Rightarrow> bool" where
  "currentApproved CAMPAIGN_APPROVED currentStatus camp =
     (let s = toLowerCase (String_or_empty (js_or currentStatus camp))
      in s \<noteq> [] \<and> s \<in> CAMPAIGN_APPROVED)"

text \<open>Lines 40-41 and 47-53.\<close>

definition shouldSwitch ::
  "(string \<Rightarrow> int) \<Rightarrow> string set \<Rightarrow> sync_vars \<Rightarrow> string option \<Rightarrow> canonical option \<Rightarrow> bool" where
  "shouldSwitch scoreCampaignStatus CAMPAIGN_APPROVED v currentStatus can =
     (let scoreCurrent = scoreCampaignStatus (String_or_empty (js_or currentStatus (campStatus v)));
          scoreCanonical = scoreCampaignStatus (String_or_empty (opt_field canonical_campaignStatus can))
      in (\<not> truthy (campaignSid v) \<or> \<not> truthy (messagingServiceSid v)) \<or>
         (truthy (opt_field canonical_campaignSid can) \<and>
          truthy (opt_field canonical_messagingServiceSid can) \<and>
          scoreCanonical > scoreCurrent) \<or>
         (truthy (opt_field canonical_campaignSid can) \<and>
          truthy (opt_field canonical_messagingServiceSid can) \<and>
          opt_field canonical_campaignSid can \<noteq> campaignSid v \<and>
          \<not> currentApproved CAMPAIGN_APPROVED currentStatus (campStatus v)))"

text \<open>Lines 56-60: the assignments to the local identifiers.\<close>

definition adopt :: "canonical \<Rightarrow> sync_vars \<Rightarrow> sync_vars" where
  "adopt c v =
     v\<lparr>messagingServiceSid := canonical_messagingServiceSid c,
       campaignSid := canonical_campaignSid c,
       brandSid :=
         (if truthy (canonical_brandSid c) \<and> startsWith (String_or_empty (canonical_brandSid c)) ''BN''
          then Some (String_or_empty (canonical_brandSid c))
          else brandSid v)\<rparr>"

text \<open>Lines 63-75: the \<^verbatim>\<open>$set\<close> and \<^verbatim>\<open>$unset\<close> of \<^verbatim>\<open>A2PProfile.updateOne\<close>.\<close>

definition persist_canonical :: "nat \<Rightarrow> sync_vars \<Rightarrow> a2p_profile \<Rightarrow> a2p_profile" where
  "persist_canonical now v d =
     (let d1 = d\<lparr>doc_messagingServiceSid := messagingServiceSid v,
                 doc_campaignSid := campaignSid v,
                 doc_usa2pSid := campaignSid v,
                 doc_lastSyncedAt := Some now,
                 doc_lastError := None\<rparr>
      in if truthy (brandSid v) then d1\<lparr>doc_brandSid := brandSid v\<rparr> else d1)"

text \<open>The write may fail; \<open>upd\<close> says whether \<^verbatim>\<open>updateOne\<close> returns or throws.\<close>

definition updateOne_canonical :: "unit outcome \<Rightarrow> nat \<Rightarrow> (sync_vars \<times> world) stmt" where
  "updateOne_canonical upd now =
     (\<lambda>(v, w). case upd of
         Throws e \<Rightarrow> (Inl e, (v, w))
       | Returns _ \<Rightarrow> (Inr (), (v, w\<lparr>db := persist_canonical now v (db w)\<rparr>)))"

text \<open>Lines 77-79.\<close>

definition take_canonical_status :: "canonical \<Rightarrow> (sync_vars \<times> world) stmt" where
  "take_canonical_status c =
     (\<lambda>(v, w). (Inr (),
        (if truthy (canonical_campaignStatus c) then v\<lparr>campStatus := canonical_campaignStatus c\<rparr> else v,
         w)))"

text \<open>Lines 29-33: what a successful fetch assigns.\<close>

definition after_fetch :: "campaign_resource option \<Rightarrow> sync_vars \<Rightarrow> sync_vars" where
  "after_fetch fetched v =
     (if fetched = None then v
      else v\<lparr>campStatus := js_or (currentStatus_of fetched) (campStatus v)\<rparr>)"

text \<open>Line 55: the condition of the \<^verbatim>\<open>if\<close> that adopts the candidate.\<close>

definition switch_condition ::
  "(string \<Rightarrow> int) \<Rightarrow> string set \<Rightarrow> sync_vars \<Rightarrow> string option \<Rightarrow> canonical option \<Rightarrow> bool" where
  "switch_condition scoreCampaignStatus CAMPAIGN_APPROVED v currentStatus can =
     (shouldSwitch scoreCampaignStatus CAMPAIGN_APPROVED v currentStatus can \<and>
      truthy (opt_field canonical_messagingServiceSid can) \<and>
      truthy (opt_field canonical_campaignSid can))"

text \<open>
  The body of the \<^verbatim>\<open>try\<close>, lines 27-80. \<open>fetch\<close> and \<open>scan\<close> are the two registry
  calls, each of which returns or throws. With no candidate (\<open>None\<close>) the condition of
  line 55 is false.
\<close>

definition scan_try_body ::
  "(string \<Rightarrow> int) \<Rightarrow> string set \<Rightarrow>
   (string option \<Rightarrow> string option \<Rightarrow> campaign_resource option outcome) \<Rightarrow>
   (string option \<Rightarrow> canonical option outcome) \<Rightarrow>
   unit outcome \<Rightarrow> nat \<Rightarrow> (sync_vars \<times> world) stmt" where
  "scan_try_body scoreCampaignStatus CAMPAIGN_APPROVED fetch scan upd now =
     (\<lambda>(v, w).
        case fetch (messagingServiceSid v) (campaignSid v) of
          Throws e \<Rightarrow> (Inl e, (v, w))
        | Returns fetched \<Rightarrow>
            (let currentStatus = currentStatus_of fetched;
                 v1 = after_fetch fetched v
             in case scan (js_or (brandSid v1) None) of
                  Throws e \<Rightarrow> (Inl e, (v1, w))
                | Returns can \<Rightarrow>
                    (case can of
                       None \<Rightarrow> (Inr (), (v1, w))
                     | Some c \<Rightarrow>
                         if switch_condition scoreCampaignStatus CAMPAIGN_APPROVED v1 currentStatus can
                         then js_then (updateOne_canonical upd now) (take_canonical_status c)
                                (adopt c v1, w)
                         else (Inr (), (v1, w)))))"

text \<open>Lines 26-83: the \<^verbatim>\<open>try\<close> with its empty \<^verbatim>\<open>catch\<close>.\<close>

definition canonical_scan_block ::
  "(string \<Rightarrow> int) \<Rightarrow> string set \<Rightarrow>
   (string option \<Rightarrow> string option \<Rightarrow> campaign_resource option outcome) \<Rightarrow>
   (string option \<Rightarrow> canonical option outcome) \<Rightarrow>
   unit outcome \<Rightarrow> nat \<Rightarrow> (sync_vars \<times> world) stmt" where
  "canonical_scan_block scoreCampaignStatus CAMPAIGN_APPROVED fetch scan upd now =
     try_catch (scan_try_body scoreCampaignStatus CAMPAIGN_APPROVED fetch scan upd now)
       (\<lambda>e. js_skip)"

section \<open>sync.ts: the approved branch and a whole pass\<close>

text \<open>
  Modelled from the spec: the statements of sync.ts around the patched blocks are not
  part of the sources. What the gate held before the patch is taken from section 5 of the
  spec ("the gate must be set using a conditional write that only succeeds if the field
  was previously unset"), with the time of the write as \<open>now\<close>.
\<close>

definition set_gate_if_unset :: "nat \<Rightarrow> world stmt" where
  "set_gate_if_unset now w =
     (Inr (),
      if approvalNotifiedAt (db w) = None
      then w\<lparr>db := (db w)\<lparr>approvalNotifiedAt := Some now\<rparr>\<rparr>
      else w)"

text \<open>
  Modelled from the spec: the write of the approved branches, known from the anchors of
  \<^verbatim>\<open>patch_a2p_charge_hook_a2p_sync.py\<close> (lines 18, 26 and 43: an
  \<^verbatim>\<open>A2PProfile.updateOne\<close> whose \<^verbatim>\<open>$set\<close> holds \<^verbatim>\<open>messagingReady: true\<close> and
  \<^verbatim>\<open>applicationStatus: "approved"\<close>); the other fields of that \<^verbatim>\<open>$set\<close> are not in
  the sources.
\<close>

definition updateOne_approved :: "world stmt" where
  "updateOne_approved w =
     (Inr (), w\<lparr>db := (db w)\<lparr>doc_messagingReady := True, applicationStatus := Some ''approved''\<rparr>\<rparr>)"

text \<open>
  Modelled from the spec: an approved branch of sync.ts (section 4.5, steps 3 to 5): the
  approved fields are written, then the gate is run on the document \<open>doc\<close> that the
  invocation loaded.
\<close>

definition approved_branch ::
  "(user option \<Rightarrow> unit outcome) \<Rightarrow> nat \<Rightarrow> a2p_profile \<Rightarrow> user option \<Rightarrow> world stmt" where
  "approved_branch charge now doc u =
     js_then updateOne_approved (approval_gate charge (set_gate_if_unset now) doc u)"








text \<open>
  Modelled from the spec: section 4.1, for concrete runs: approved-class statuses rank
  highest, pending-class statuses in the middle, anything else lowest. The classes hold
  the two status names the spec gives.
\<close>

definition spec_CAMPAIGN_APPROVED :: "string set" where
  "spec_CAMPAIGN_APPROVED = {''approved''}"

definition spec_scoreCampaignStatus :: "string \<Rightarrow> int" where
  "spec_scoreCampaignStatus st =
     (if toLowerCase st \<in> spec_CAMPAIGN_APPROVED then 2
      else if toLowerCase st = ''pending'' then 1
      else 0)"

section \<open>Values for concrete runs\<close>

definition doc0 :: a2p_profile where
  "doc0 = \<lparr>doc_messagingServiceSid = Some ''MG1'', doc_campaignSid = Some ''QE1'',
            doc_usa2pSid = Some ''QE1'', doc_brandSid = Some ''BN1'', doc_lastSyncedAt = None,
            doc_lastError = Some ''stale'', approvalNotifiedAt = None,
            doc_messagingReady = False, applicationStatus = None\<rparr>"

definition world0 :: world where
  "world0 = \<lparr>db = doc0, events = []\<rparr>"

definition vars0 :: sync_vars where
  "vars0 = \<lparr>messagingServiceSid = Some ''MG1'', campaignSid = Some ''QE1'',
             brandSid = Some ''BN1'', campStatus = Some ''pending''\<rparr>"

definition candidate0 :: canonical where
  "candidate0 = \<lparr>canonical_campaignSid = Some ''QE2'', canonical_messagingServiceSid = Some ''MG2'',
                  canonical_brandSid = Some ''BN2'', canonical_campaignStatus = Some ''approved''\<rparr>"

definition user0 :: "user option" where
  "user0 = Some \<lparr>registrationStatus = Some ''pending'', user_messagingReady = None\<rparr>"


definition charge_ok :: "user option \<Rightarrow> unit outcome" where
  "charge_ok u = Returns ()"

definition charge_fails :: "user option \<Rightarrow> unit outcome" where
  "charge_fails u = Throws (JsError (Some ''card declined''))"


section \<open>Facts about the canonical-campaign block\<close>

lemmas run_defs =
  doc0_def world0_def vars0_def candidate0_def user0_def charge_ok_def charge_fails_def
  spec_scoreCampaignStatus_def spec_CAMPAIGN_APPROVED_def
  toLowerCase_def lower_char_def String_or_empty_def js_or_def truthy_def startsWith_def
  currentStatus_of_def currentApproved_def after_fetch_def opt_field_def

lemma js_or_idem: "js_or a (js_or a b) = js_or a b"
  by (simp add: js_or_def)

lemma current_after_fetch:
  "js_or (currentStatus_of fetched) (campStatus (after_fetch fetched v)) =
   js_or (currentStatus_of fetched) (campStatus v)"
  by (cases fetched) (simp_all add: after_fetch_def js_or_idem currentStatus_of_def)

lemma after_fetch_ids:
  "campaignSid (after_fetch fetched v) = campaignSid v"
  "messagingServiceSid (after_fetch fetched v) = messagingServiceSid v"
  "brandSid (after_fetch fetched v) = brandSid v"
  by (simp_all add: after_fetch_def)

lemma adopt_ids:
  "campaignSid (adopt c v) = canonical_campaignSid c"
  "messagingServiceSid (adopt c v) = canonical_messagingServiceSid c"
  by (simp_all add: adopt_def)

lemma scan_block_fetch_throws:
  assumes "fetch (messagingServiceSid v) (campaignSid v) = Throws e"
  shows "canonical_scan_block score A fetch scan upd t (v, w) = (Inr (), (v, w))"
  using assms
  by (simp add: canonical_scan_block_def try_catch_def scan_try_body_def js_skip_def)

lemma scan_block_scan_throws:
  assumes "fetch (messagingServiceSid v) (campaignSid v) = Returns fetched"
      and "scan (js_or (brandSid v) None) = Throws e"
  shows "canonical_scan_block score A fetch scan upd t (v, w) =
           (Inr (), (after_fetch fetched v, w))"
  using assms
  by (simp add: canonical_scan_block_def try_catch_def scan_try_body_def js_skip_def Let_def
      after_fetch_ids)

lemma scan_block_none:
  assumes "fetch (messagingServiceSid v) (campaignSid v) = Returns fetched"
      and "scan (js_or (brandSid v) None) = Returns None"
  shows "canonical_scan_block score A fetch scan upd t (v, w) =
           (Inr (), (after_fetch fetched v, w))"
  using assms
  by (simp add: canonical_scan_block_def try_catch_def scan_try_body_def js_skip_def Let_def
      after_fetch_ids)

lemma scan_block_keep:
  assumes "fetch (messagingServiceSid v) (campaignSid v) = Returns fetched"
      and "scan (js_or (brandSid v) None) = Returns (Some c)"
      and "\<not> switch_condition score A (after_fetch fetched v) (currentStatus_of fetched) (Some c)"
  shows "canonical_scan_block score A fetch scan upd t (v, w) =
           (Inr (), (after_fetch fetched v, w))"
  using assms
  by (simp add: canonical_scan_block_def try_catch_def scan_try_body_def js_skip_def Let_def
      after_fetch_ids)

lemma scan_block_switch:
  assumes "fetch (messagingServiceSid v) (campaignSid v) = Returns fetched"
      and "scan (js_or (brandSid v) None) = Returns (Some c)"
      and "switch_condition score A (after_fetch fetched v) (currentStatus_of fetched) (Some c)"
  shows "canonical_scan_block score A fetch scan upd t (v, w) =
           (Inr (),
            case upd of
              Throws e \<Rightarrow> (adopt c (after_fetch fetched v), w)
            | Returns _ \<Rightarrow>
                (if truthy (canonical_campaignStatus c)
                 then (adopt c (after_fetch fetched v))\<lparr>campStatus := canonical_campaignStatus c\<rparr>
                 else adopt c (after_fetch fetched v),
                 w\<lparr>db := persist_canonical t (adopt c (after_fetch fetched v)) (db w)\<rparr>))"
  using assms
  by (simp add: canonical_scan_block_def try_catch_def scan_try_body_def js_skip_def Let_def
      after_fetch_ids js_then_def updateOne_canonical_def take_canonical_status_def
      split: outcome.splits)

lemma switch_condition_rules:
  assumes "truthy (canonical_campaignSid c)" and "truthy (canonical_messagingServiceSid c)"
  shows "switch_condition score A (after_fetch fetched v) (currentStatus_of fetched) (Some c) \<longleftrightarrow>
           (\<not> truthy (campaignSid v) \<or> \<not> truthy (messagingServiceSid v)) \<or>
           score (String_or_empty (js_or (currentStatus_of fetched) (campStatus v)))
             < score (String_or_empty (canonical_campaignStatus c)) \<or>
           (canonical_campaignSid c \<noteq> campaignSid v \<and>
            \<not> currentApproved A (currentStatus_of fetched) (campStatus v))"
  using assms
  by (simp add: switch_condition_def shouldSwitch_def opt_field_def Let_def after_fetch_ids
      current_after_fetch currentApproved_def)

section \<open>The selector's decision rule\<close>

text \<open>
  Claim C5. A pass in which both registry calls return and the scan yields a candidate
  \<open>c\<close> that carries both identifiers. The current status is
  \<^verbatim>\<open>currentStatus || campStatus || ""\<close>. The block adopts the candidate (the condition of
  line 55 holds, and the local \<open>campaignSid\<close> and \<open>messagingServiceSid\<close> become the
  candidate's) if and only if an identifier is missing locally, or the candidate's status
  scores strictly higher than the current one, or the candidate's campaign differs from
  the stored one and the current status is not in the approved class; otherwise the
  stored identifiers and the stored document are left as they were.
\<close>

theorem selector_switches_iff:
  assumes "fetch (messagingServiceSid v) (campaignSid v) = Returns fetched"
      and "scan (js_or (brandSid v) None) = Returns (Some c)"
      and "truthy (canonical_campaignSid c)"
      and "truthy (canonical_messagingServiceSid c)"
  shows "let cur = String_or_empty (js_or (currentStatus_of fetched) (campStatus v));
             rule = ((\<not> truthy (campaignSid v) \<or> \<not> truthy (messagingServiceSid v)) \<or>
                     score cur < score (String_or_empty (canonical_campaignStatus c)) \<or>
                     (canonical_campaignSid c \<noteq> campaignSid v \<and>
                      \<not> currentApproved A (currentStatus_of fetched) (campStatus v)));
             r = canonical_scan_block score A fetch scan upd t (v, w);
             v' = fst (snd r)
         in switch_condition score A (after_fetch fetched v) (currentStatus_of fetched) (Some c) = rule \<and>
            (if rule
             then campaignSid v' = canonical_campaignSid c \<and>
                  messagingServiceSid v' = canonical_messagingServiceSid c
             else campaignSid v' = campaignSid v \<and>
                  messagingServiceSid v' = messagingServiceSid v \<and>
                  brandSid v' = brandSid v \<and>
                  snd (snd r) = w)"
proof -
  let ?sw = "switch_condition score A (after_fetch fetched v) (currentStatus_of fetched) (Some c)"
  let ?r = "canonical_scan_block score A fetch scan upd t (v, w)"
  note rules = switch_condition_rules [OF assms(3,4), of score A fetched v]
  show ?thesis
  proof (cases ?sw)
    case True
    have "campaignSid (fst (snd ?r)) = canonical_campaignSid c \<and>
          messagingServiceSid (fst (snd ?r)) = canonical_messagingServiceSid c"
      by (simp add: scan_block_switch [where fetch = fetch and scan = scan, OF assms(1,2) True]
          adopt_ids split: outcome.splits)
    with True rules show ?thesis
      unfolding Let_def by presburger
  next
    case False
    have "?r = (Inr (), (after_fetch fetched v, w))"
      by (rule scan_block_keep [where fetch = fetch and scan = scan, OF assms(1,2) False])
    then have "campaignSid (fst (snd ?r)) = campaignSid v \<and>
               messagingServiceSid (fst (snd ?r)) = messagingServiceSid v \<and>
               brandSid (fst (snd ?r)) = brandSid v \<and> snd (snd ?r) = w"
      by (simp add: after_fetch_ids)
    with False rules show ?thesis
      unfolding Let_def by presburger
  qed
qed

text \<open>
  A run: the stored campaign \<open>QE1\<close> is pending, the scan finds \<open>QE2\<close>, approved; the
  block adopts \<open>QE2\<close>.
\<close>

theorem selector_switches_iff_witness:
  "truthy (canonical_campaignSid candidate0) \<and>
   truthy (canonical_messagingServiceSid candidate0) \<and>
   campaignSid (fst (snd (canonical_scan_block spec_scoreCampaignStatus spec_CAMPAIGN_APPROVED
      (\<lambda>m c. Returns None) (\<lambda>b. Returns (Some candidate0)) (Returns ()) 7 (vars0, world0))))
     = Some ''QE2''"
proof -
  have h3: "truthy (canonical_campaignSid candidate0)"
    and h4: "truthy (canonical_messagingServiceSid candidate0)"
    by (simp_all add: run_defs)
  have h1: "(\<lambda>m c. Returns None) (messagingServiceSid vars0) (campaignSid vars0) =
              Returns (None :: campaign_resource option)"
    and h2: "(\<lambda>b. Returns (Some candidate0)) (js_or (brandSid vars0) None) =
              Returns (Some candidate0)"
    by simp_all
  show ?thesis
    using h3 h4 selector_switches_iff [where fetch = "\<lambda>m c. Returns None"
        and scan = "\<lambda>b. Returns (Some candidate0)" and v = vars0 and c = candidate0
        and fetched = None and score = spec_scoreCampaignStatus and A = spec_CAMPAIGN_APPROVED
        and upd = "Returns ()" and t = 7 and w = world0, OF h1 h2 h3 h4]
    by (simp add: run_defs Let_def)
qed

text \<open>
  Claim C6, as amended. When both identifiers are stored, the current status is in the
  approved class and the candidate's status scores lower than or equal to the current
  one, the block keeps the stored identifiers and writes nothing. (With an identifier
  missing locally the first rule of the selector adopts the candidate whatever the
  statuses are: see the run after the next one.)
\<close>

theorem approved_campaign_is_kept:
  assumes "truthy (campaignSid v)"
      and "truthy (messagingServiceSid v)"
      and "fetch (messagingServiceSid v) (campaignSid v) = Returns fetched"
      and "scan (js_or (brandSid v) None) = Returns (Some c)"
      and "currentApproved A (currentStatus_of fetched) (campStatus v)"
      and "score (String_or_empty (canonical_campaignStatus c))
             \<le> score (String_or_empty (js_or (currentStatus_of fetched) (campStatus v)))"
  shows "let r = canonical_scan_block score A fetch scan upd t (v, w)
         in fst r = Inr () \<and>
            campaignSid (fst (snd r)) = campaignSid v \<and>
            messagingServiceSid (fst (snd r)) = messagingServiceSid v \<and>
            brandSid (fst (snd r)) = brandSid v \<and>
            snd (snd r) = w"
proof -
  have "\<not> switch_condition score A (after_fetch fetched v) (currentStatus_of fetched) (Some c)"
    using assms(1,2,5,6)
    by (simp add: switch_condition_def shouldSwitch_def opt_field_def Let_def after_fetch_ids
        current_after_fetch currentApproved_def)
  then have "canonical_scan_block score A fetch scan upd t (v, w) =
               (Inr (), (after_fetch fetched v, w))"
    by (rule scan_block_keep [where fetch = fetch and scan = scan, OF assms(3,4)])
  then show ?thesis
    by (simp add: after_fetch_ids)
qed

text \<open>
  The scenario of the spec: the stored campaign \<open>QE1\<close> is approved, the scan returns
  \<open>QE2\<close> with status "pending"; the block keeps \<open>QE1\<close>.
\<close>

theorem approved_campaign_is_kept_witness:
  "campaignSid (fst (snd (canonical_scan_block spec_scoreCampaignStatus spec_CAMPAIGN_APPROVED
      (\<lambda>m c. Returns (Some \<lparr>status = Some ''APPROVED'', state = None\<rparr>))
      (\<lambda>b. Returns (Some (candidate0\<lparr>canonical_campaignStatus := Some ''pending''\<rparr>)))
      (Returns ()) 7 (vars0, world0))))
     = Some ''QE1''"
proof -
  let ?f = "\<lambda>(m::string option) (c::string option).
              Returns (Some \<lparr>status = Some ''APPROVED'', state = None\<rparr>)"
  let ?s = "\<lambda>b::string option.
              Returns (Some (candidate0\<lparr>canonical_campaignStatus := Some ''pending''\<rparr>))"
  have h1: "truthy (campaignSid vars0)" and h2: "truthy (messagingServiceSid vars0)"
    by (simp_all add: run_defs)
  have h3: "?f (messagingServiceSid vars0) (campaignSid vars0) =
              Returns (Some \<lparr>status = Some ''APPROVED'', state = None\<rparr>)"
    and h4: "?s (js_or (brandSid vars0) None) =
              Returns (Some (candidate0\<lparr>canonical_campaignStatus := Some ''pending''\<rparr>))"
    by simp_all
  have h5: "currentApproved spec_CAMPAIGN_APPROVED
              (currentStatus_of (Some \<lparr>status = Some ''APPROVED'', state = None\<rparr>))
              (campStatus vars0)"
    by (simp add: run_defs)
  have h6: "spec_scoreCampaignStatus (String_or_empty (canonical_campaignStatus
                (candidate0\<lparr>canonical_campaignStatus := Some ''pending''\<rparr>)))
             \<le> spec_scoreCampaignStatus (String_or_empty
                (js_or (currentStatus_of (Some \<lparr>status = Some ''APPROVED'', state = None\<rparr>))
                   (campStatus vars0)))"
    by (simp add: run_defs)
  show ?thesis
    using approved_campaign_is_kept [where fetch = ?f and scan = ?s and v = vars0
        and score = spec_scoreCampaignStatus and A = spec_CAMPAIGN_APPROVED
        and upd = "Returns ()" and t = 7 and w = world0, OF h1 h2 h3 h4 h5 h6]
    by (simp add: run_defs Let_def)
qed

text \<open>
  The claim as stated fails: the document stores campaign \<open>QE1\<close> with an approved status
  but no messaging service; the scan returns \<open>QE2\<close>, pending, which scores lower; line
  48 makes \<open>shouldSwitch\<close> true and the block switches to \<open>QE2\<close>.
\<close>

theorem approved_campaign_switched_counterexample:
  "currentApproved spec_CAMPAIGN_APPROVED None (Some ''approved'') \<and>
   spec_scoreCampaignStatus ''pending'' \<le> spec_scoreCampaignStatus ''approved'' \<and>
   campaignSid (fst (snd (canonical_scan_block spec_scoreCampaignStatus spec_CAMPAIGN_APPROVED
      (\<lambda>m c. Returns None)
      (\<lambda>b. Returns (Some (candidate0\<lparr>canonical_campaignStatus := Some ''pending''\<rparr>)))
      (Returns ()) 7
      (\<lparr>messagingServiceSid = None, campaignSid = Some ''QE1'', brandSid = Some ''BN1'',
        campStatus = Some ''approved''\<rparr>, world0))))
     = Some ''QE2''"
  by (simp add: run_defs canonical_scan_block_def try_catch_def scan_try_body_def js_skip_def
      Let_def switch_condition_def shouldSwitch_def js_then_def updateOne_canonical_def
      take_canonical_status_def adopt_def)

text \<open>
  Claim C10. When the block adopts a candidate, the local \<open>brandSid\<close> becomes the
  candidate's only if that is a non-empty string starting with "BN"; otherwise it keeps
  its value, while \<open>campaignSid\<close> and \<open>messagingServiceSid\<close> become the candidate's.
  The write that follows stores the two new identifiers, and stores the local
  \<open>brandSid\<close> when it is non-empty: so a document whose \<open>brandSid\<close> the handler had
  loaded keeps it unless the candidate's has the prefix.
\<close>

theorem brandSid_adopted_only_with_BN_prefix:
  assumes "fetch (messagingServiceSid v) (campaignSid v) = Returns fetched"
      and "scan (js_or (brandSid v) None) = Returns (Some c)"
      and "switch_condition score A (after_fetch fetched v) (currentStatus_of fetched) (Some c)"
  shows "let r = canonical_scan_block score A fetch scan upd t (v, w);
             v' = fst (snd r);
             w' = snd (snd r);
             adopted = (if truthy (canonical_brandSid c) \<and>
                           startsWith (String_or_empty (canonical_brandSid c)) ''BN''
                        then canonical_brandSid c else brandSid v)
         in campaignSid v' = canonical_campaignSid c \<and>
            messagingServiceSid v' = canonical_messagingServiceSid c \<and>
            brandSid v' = adopted \<and>
            (upd = Returns () \<longrightarrow>
               doc_campaignSid (db w') = canonical_campaignSid c \<and>
               doc_messagingServiceSid (db w') = canonical_messagingServiceSid c \<and>
               doc_brandSid (db w') = (if truthy adopted then adopted else doc_brandSid (db w)))"
proof -
  have same: "truthy b \<Longrightarrow> Some (String_or_empty b) = b" for b
    by (cases b) (simp_all add: truthy_def String_or_empty_def js_or_def)
  have b: "brandSid (adopt c (after_fetch fetched v)) =
             (if truthy (canonical_brandSid c) \<and>
                 startsWith (String_or_empty (canonical_brandSid c)) ''BN''
              then canonical_brandSid c else brandSid v)"
    by (simp add: adopt_def after_fetch_ids same)
  show ?thesis
    by (simp add: scan_block_switch [where fetch = fetch and scan = scan, OF assms]
        Let_def adopt_ids b persist_canonical_def split: outcome.splits)
qed

text \<open>
  A run: the candidate's brand "XX9" lacks the prefix; the campaign is switched to
  \<open>QE2\<close>, the brand stays \<open>BN1\<close>, locally and in the stored document.
\<close>

theorem brandSid_adopted_only_with_BN_prefix_witness:
  "brandSid (fst (snd (canonical_scan_block spec_scoreCampaignStatus spec_CAMPAIGN_APPROVED
      (\<lambda>m c. Returns None)
      (\<lambda>b. Returns (Some (candidate0\<lparr>canonical_brandSid := Some ''XX9''\<rparr>)))
      (Returns ()) 7 (vars0, world0)))) = Some ''BN1'' \<and>
   campaignSid (fst (snd (canonical_scan_block spec_scoreCampaignStatus spec_CAMPAIGN_APPROVED
      (\<lambda>m c. Returns None)
      (\<lambda>b. Returns (Some (candidate0\<lparr>canonical_brandSid := Some ''XX9''\<rparr>)))
      (Returns ()) 7 (vars0, world0)))) = Some ''QE2'' \<and>
   doc_brandSid (db (snd (snd (canonical_scan_block spec_scoreCampaignStatus spec_CAMPAIGN_APPROVED
      (\<lambda>m c. Returns None)
      (\<lambda>b. Returns (Some (candidate0\<lparr>canonical_brandSid := Some ''XX9''\<rparr>)))
      (Returns ()) 7 (vars0, world0))))) = Some ''BN1''"
proof -
  let ?f = "\<lambda>(m::string option) (c::string option). Returns (None :: campaign_resource option)"
  let ?c = "candidate0\<lparr>canonical_brandSid := Some ''XX9''\<rparr>"
  let ?s = "\<lambda>b::string option. Returns (Some ?c)"
  have h1: "?f (messagingServiceSid vars0) (campaignSid vars0) = Returns None"
    and h2: "?s (js_or (brandSid vars0) None) = Returns (Some ?c)"
    by simp_all
  have h3: "switch_condition spec_scoreCampaignStatus spec_CAMPAIGN_APPROVED
              (after_fetch None vars0) (currentStatus_of None) (Some ?c)"
    by (simp add: run_defs switch_condition_def shouldSwitch_def Let_def)
  show ?thesis
    using brandSid_adopted_only_with_BN_prefix [where fetch = ?f and scan = ?s and v = vars0
        and score = spec_scoreCampaignStatus and A = spec_CAMPAIGN_APPROVED
        and upd = "Returns ()" and t = 7 and w = world0, OF h1 h2 h3]
    by (simp add: run_defs Let_def)
qed

section \<open>Registry errors\<close>

lemma try_catch_skip_result: "fst (try_catch body (\<lambda>e. js_skip) s) = Inr ()"
  by (cases "body s") (auto simp add: try_catch_def js_skip_def split: sum.splits)

text \<open>
  Claim C7. The block never throws, whatever the registry calls and the write do. When
  the fetch throws, the local variables and the stored document are left exactly as
  they were. When the scan throws after a fetch that returned, the identifiers and the
  stored document are left as they were, and the local state is what the completed fetch
  left: \<open>campStatus\<close> holds the status of the stored campaign as lines 30-33 assigned
  it. In both cases no candidate is adopted and nothing is written.
\<close>

theorem registry_errors_are_swallowed:
  "fst (canonical_scan_block score A fetch scan upd t (v, w)) = Inr () \<and>
   (fetch (messagingServiceSid v) (campaignSid v) = Throws e \<longrightarrow>
      canonical_scan_block score A fetch scan upd t (v, w) = (Inr (), (v, w))) \<and>
   (fetch (messagingServiceSid v) (campaignSid v) = Returns fetched \<and>
    scan (js_or (brandSid v) None) = Throws e \<longrightarrow>
      canonical_scan_block score A fetch scan upd t (v, w) = (Inr (), (after_fetch fetched v, w)) \<and>
      campaignSid (after_fetch fetched v) = campaignSid v \<and>
      messagingServiceSid (after_fetch fetched v) = messagingServiceSid v \<and>
      brandSid (after_fetch fetched v) = brandSid v)"
proof -
  have "fst (canonical_scan_block score A fetch scan upd t (v, w)) = Inr ()"
    unfolding canonical_scan_block_def by (rule try_catch_skip_result)
  moreover have "fetch (messagingServiceSid v) (campaignSid v) = Throws e \<Longrightarrow>
      canonical_scan_block score A fetch scan upd t (v, w) = (Inr (), (v, w))"
    by (rule scan_block_fetch_throws)
  moreover have "fetch (messagingServiceSid v) (campaignSid v) = Returns fetched \<Longrightarrow>
      scan (js_or (brandSid v) None) = Throws e \<Longrightarrow>
      canonical_scan_block score A fetch scan upd t (v, w) = (Inr (), (after_fetch fetched v, w))"
    by (rule scan_block_scan_throws)
  ultimately show ?thesis
    by (simp add: after_fetch_ids)
qed

text \<open>
  Two runs: the scan times out after a fetch that found the campaign approved, and the
  fetch itself times out.
\<close>

theorem registry_errors_are_swallowed_witness:
  "canonical_scan_block spec_scoreCampaignStatus spec_CAMPAIGN_APPROVED
      (\<lambda>m c. Returns (Some \<lparr>status = Some ''approved'', state = None\<rparr>))
      (\<lambda>b. Throws (JsError (Some ''ETIMEDOUT''))) (Returns ()) 7 (vars0, world0)
     = (Inr (), (vars0\<lparr>campStatus := Some ''approved''\<rparr>, world0)) \<and>
   canonical_scan_block spec_scoreCampaignStatus spec_CAMPAIGN_APPROVED
      (\<lambda>m c. Throws (JsError (Some ''ETIMEDOUT'')))
      (\<lambda>b. Returns (Some candidate0)) (Returns ()) 7 (vars0, world0)
     = (Inr (), (vars0, world0))"
  using registry_errors_are_swallowed [where
          fetch = "\<lambda>m c. Returns (Some \<lparr>status = Some ''approved'', state = None\<rparr>)"
      and scan = "\<lambda>b. Throws (JsError (Some ''ETIMEDOUT''))" and v = vars0 and w = world0
      and score = spec_scoreCampaignStatus and A = spec_CAMPAIGN_APPROVED and upd = "Returns ()"
      and t = 7 and e = "JsError (Some ''ETIMEDOUT'')"
      and fetched = "Some \<lparr>status = Some ''approved'', state = None\<rparr>"]
    registry_errors_are_swallowed [where fetch = "\<lambda>m c. Throws (JsError (Some ''ETIMEDOUT''))"
      and scan = "\<lambda>b. Returns (Some candidate0)" and v = vars0 and w = world0
      and score = spec_scoreCampaignStatus and A = spec_CAMPAIGN_APPROVED and upd = "Returns ()"
      and t = 7 and e = "JsError (Some ''ETIMEDOUT'')"]
  by (simp add: run_defs)

section \<open>Facts about the billing blocks\<close>

lemma charge_calls_Nil: "charge_calls [] = 0"
  by (simp add: charge_calls_def)

lemma charge_calls_append: "charge_calls (xs @ ys) = charge_calls xs + charge_calls ys"
  by (simp add: charge_calls_def)

lemma charge_calls_outcome:
  "charge_calls (case c of Returns _ \<Rightarrow> [ChargeCalled u]
                 | Throws e \<Rightarrow> [ChargeCalled u, ConsoleWarn m (f e)]) = 1"
  by (simp add: charge_calls_def split: outcome.splits)

lemma sync_charge_block_eq:
  "sync_charge_block c u w =
     (Inr (), w\<lparr>events := events w @
        (case c u of
           Returns _ \<Rightarrow> [ChargeCalled u]
         | Throws e \<Rightarrow> [ChargeCalled u,
             ConsoleWarn ''[A2P] approval fee charge failed (non-fatal):'' (warn_payload e)])\<rparr>)"
  by (simp add: sync_charge_block_def try_catch_def await_charge_def warn_charge_failed_def
      split: outcome.splits)

lemma callback_charge_block_eq:
  "callback_charge_block c r u w =
     (Inr (), w\<lparr>events := events w @
        (if r \<and> \<not> wasReady u
         then (case c u of
                 Returns _ \<Rightarrow> [ChargeCalled u]
               | Throws e \<Rightarrow> [ChargeCalled u,
                   ConsoleWarn ''[A2P] approval fee charge failed (non-fatal):'' (warn_payload e)])
         else [])\<rparr>)"
  by (simp add: callback_charge_block_def try_catch_def await_charge_def warn_charge_failed_def
      js_skip_def split: outcome.splits)

lemma approval_gate_set:
  "approvalNotifiedAt doc \<noteq> None \<Longrightarrow> approval_gate c rest doc u w = (Inr (), w)"
  by (auto simp add: approval_gate_def js_skip_def)

lemma approval_gate_open:
  "approvalNotifiedAt doc = None \<Longrightarrow>
   approval_gate c rest doc u w = rest (snd (sync_charge_block c u w))"
  by (simp add: approval_gate_def js_then_def sync_charge_block_eq)

lemma approval_gate_unset:
  "approvalNotifiedAt doc = None \<Longrightarrow>
   approval_gate c (set_gate_if_unset t) doc u w =
     (Inr (),
      (if approvalNotifiedAt (db w) = None
       then w\<lparr>db := (db w)\<lparr>approvalNotifiedAt := Some t\<rparr>\<rparr>
       else w)
      \<lparr>events := events w @
        (case c u of
           Returns _ \<Rightarrow> [ChargeCalled u]
         | Throws e \<Rightarrow> [ChargeCalled u,
             ConsoleWarn ''[A2P] approval fee charge failed (non-fatal):'' (warn_payload e)])\<rparr>)"
  by (simp add: approval_gate_def js_then_def sync_charge_block_eq set_gate_if_unset_def)

lemma approval_gate_calls:
  "charge_calls (events (snd (approval_gate c (set_gate_if_unset t) doc u w))) =
     charge_calls (events w) + (if approvalNotifiedAt doc = None then 1 else 0)"
  by (simp add: approval_gate_set approval_gate_unset charge_calls_append charge_calls_outcome)

lemma approval_gate_result: "fst (approval_gate c (set_gate_if_unset t) doc u w) = Inr ()"
  by (cases "approvalNotifiedAt doc = None") (simp_all add: approval_gate_set approval_gate_unset)

lemma approval_gate_db:
  "db (snd (approval_gate c (set_gate_if_unset t) doc u w)) =
     (if approvalNotifiedAt doc = None \<and> approvalNotifiedAt (db w) = None
      then (db w)\<lparr>approvalNotifiedAt := Some t\<rparr> else db w)"
  by (cases "approvalNotifiedAt doc = None") (simp_all add: approval_gate_set approval_gate_unset)


lemma approved_branch_result: "fst (approved_branch c t doc u w) = Inr ()"
  by (simp add: approved_branch_def js_then_def updateOne_approved_def approval_gate_result)










section \<open>When billing is called\<close>






text \<open>
  Claim C3, as amended. Two invocations that both loaded the document with
  \<open>approvalNotifiedAt\<close> unset: what decides the billing call is the test of the loaded
  document, and the call comes first in the gate, before anything the gate writes. Each
  of the two therefore calls billing, in whatever state of the store it runs; with the
  conditional write of the spec as the rest of the gate, the first sets the field, the
  second leaves it as the first set it, and two calls have been made.
\<close>

theorem both_observers_call_billing:
  assumes "approvalNotifiedAt doc = None"
  shows "approval_gate c1 rest1 doc u w = rest1 (snd (sync_charge_block c1 u w)) \<and>
         approval_gate c2 rest2 doc u w' = rest2 (snd (sync_charge_block c2 u w')) \<and>
         (let w1 = snd (approval_gate c1 (set_gate_if_unset t1) doc u w);
              w2 = snd (approval_gate c2 (set_gate_if_unset t2) doc u w1)
          in charge_calls (events w1) = charge_calls (events w) + 1 \<and>
             charge_calls (events w2) = charge_calls (events w) + 2 \<and>
             approvalNotifiedAt (db w1) =
               (case approvalNotifiedAt (db w) of None \<Rightarrow> Some t1 | Some x \<Rightarrow> Some x) \<and>
             approvalNotifiedAt (db w2) = approvalNotifiedAt (db w1))"
proof -
  have "approval_gate c1 rest1 doc u w = rest1 (snd (sync_charge_block c1 u w))"
    and "approval_gate c2 rest2 doc u w' = rest2 (snd (sync_charge_block c2 u w'))"
    using assms by (simp_all add: approval_gate_open)
  then show ?thesis
    using assms
    by (simp add: Let_def approval_gate_calls approval_gate_db split: option.splits)
qed

theorem both_observers_call_billing_witness:
  "approvalNotifiedAt doc0 = None \<and>
   approvalNotifiedAt (db (snd (approval_gate charge_ok (set_gate_if_unset 2) doc0 user0
      (snd (approval_gate charge_ok (set_gate_if_unset 1) doc0 user0 world0))))) = Some 1 \<and>
   charge_calls (events (snd (approval_gate charge_ok (set_gate_if_unset 2) doc0 user0
      (snd (approval_gate charge_ok (set_gate_if_unset 1) doc0 user0 world0))))) = 2"
proof -
  have h: "approvalNotifiedAt doc0 = None"
    by (simp add: doc0_def)
  show ?thesis
    using h both_observers_call_billing [where doc = doc0 and ?c1.0 = charge_ok and ?t1.0 = 1
        and u = user0 and w = world0 and ?c2.0 = charge_ok and ?t2.0 = 2
        and ?rest1.0 = "set_gate_if_unset 1" and ?rest2.0 = "set_gate_if_unset 2"
        and w' = world0, OF h, THEN conjunct2, THEN conjunct2]
    by (simp add: Let_def world0_def charge_calls_Nil)
qed

text \<open>
  The claim as stated fails: both invocations loaded \<open>doc0\<close>, whose gate is unset; the
  first runs its gate (and its conditional write succeeds), then the second runs its own
  on the document it had loaded. Billing is called twice, not once.
\<close>

theorem concurrent_observers_counterexample:
  "approvalNotifiedAt doc0 = None \<and>
   events (snd (approval_gate charge_ok (set_gate_if_unset 2) doc0 user0
      (snd (approval_gate charge_ok (set_gate_if_unset 1) doc0 user0 world0)))) =
     [ChargeCalled user0, ChargeCalled user0] \<and>
   charge_calls (events (snd (approval_gate charge_ok (set_gate_if_unset 2) doc0 user0
      (snd (approval_gate charge_ok (set_gate_if_unset 1) doc0 user0 world0))))) \<noteq> 1"
  by (simp add: run_defs js_then_def approval_gate_def
      sync_charge_block_def try_catch_def await_charge_def set_gate_if_unset_def charge_calls_def)

section \<open>A failing billing call\<close>

text \<open>
  Claim C4. When the billing call throws, each charge block completes normally, having
  logged the call and one warning, and leaves the stored document as it was. Whatever
  the billing call does, the statements that follow (\<open>k\<close>: the rest of the gate, or the
  rest of the callback), which cannot read the console, end with the same result and
  the same stored document as when the call succeeds; no error of the call leaves the
  block.
\<close>

theorem billing_failure_is_not_fatal:
  assumes "c u = Throws e"
      and "\<forall>x ev. fst (k (x\<lparr>events := ev\<rparr>)) = fst (k x) \<and>
                   db (snd (k (x\<lparr>events := ev\<rparr>))) = db (snd (k x))"
  shows "sync_charge_block c u w =
           (Inr (), w\<lparr>events := events w @
              [ChargeCalled u,
               ConsoleWarn ''[A2P] approval fee charge failed (non-fatal):'' (warn_payload e)]\<rparr>) \<and>
         callback_charge_block c r u w =
           (Inr (), w\<lparr>events := events w @
              (if r \<and> \<not> wasReady u
               then [ChargeCalled u,
                     ConsoleWarn ''[A2P] approval fee charge failed (non-fatal):'' (warn_payload e)]
               else [])\<rparr>) \<and>
         fst (approval_gate c k doc u w) = fst (approval_gate c' k doc u w) \<and>
         db (snd (approval_gate c k doc u w)) = db (snd (approval_gate c' k doc u w)) \<and>
         fst (js_then (callback_charge_block c r u) k w) =
           fst (js_then (callback_charge_block c' r u) k w) \<and>
         db (snd (js_then (callback_charge_block c r u) k w)) =
           db (snd (js_then (callback_charge_block c' r u) k w))"
proof -
  have gate: "fst (approval_gate b k doc u w) =
                fst (if approvalNotifiedAt doc = None then k w else (Inr (), w)) \<and>
              db (snd (approval_gate b k doc u w)) =
                db (snd (if approvalNotifiedAt doc = None then k w else (Inr (), w)))" for b
    using assms(2)
    by (simp add: approval_gate_def js_then_def js_skip_def sync_charge_block_eq)
  have cb: "fst (js_then (callback_charge_block b r u) k w) = fst (k w) \<and>
            db (snd (js_then (callback_charge_block b r u) k w)) = db (snd (k w))" for b
    using assms(2)
    by (simp add: js_then_def callback_charge_block_eq)
  show ?thesis
    using assms(1) gate [of c] gate [of c'] cb [of c] cb [of c']
    by (simp add: sync_charge_block_eq callback_charge_block_eq)
qed

text \<open>
  A run: the card is declined; the block logs the call and the warning with the error's
  message, and the gate ends as it does when the charge succeeds.
\<close>

theorem billing_failure_is_not_fatal_witness:
  "charge_fails user0 = Throws (JsError (Some ''card declined'')) \<and>
   (\<forall>x ev. fst (set_gate_if_unset 7 (x\<lparr>events := ev\<rparr>)) = fst (set_gate_if_unset 7 x) \<and>
            db (snd (set_gate_if_unset 7 (x\<lparr>events := ev\<rparr>))) = db (snd (set_gate_if_unset 7 x))) \<and>
   sync_charge_block charge_fails user0 world0 =
     (Inr (), world0\<lparr>events :=
        [ChargeCalled user0,
         ConsoleWarn ''[A2P] approval fee charge failed (non-fatal):'' (WarnText ''card declined'')]\<rparr>) \<and>
   db (snd (approval_gate charge_fails (set_gate_if_unset 7) doc0 user0 world0)) =
     db (snd (approval_gate charge_ok (set_gate_if_unset 7) doc0 user0 world0)) \<and>
   fst (approval_gate charge_fails (set_gate_if_unset 7) doc0 user0 world0) =
     fst (approval_gate charge_ok (set_gate_if_unset 7) doc0 user0 world0)"
proof -
  have h: "charge_fails user0 = Throws (JsError (Some ''card declined''))"
    by (simp add: charge_fails_def)
  have k: "\<forall>x ev. fst (set_gate_if_unset 7 (x\<lparr>events := ev\<rparr>)) = fst (set_gate_if_unset 7 x) \<and>
            db (snd (set_gate_if_unset 7 (x\<lparr>events := ev\<rparr>))) = db (snd (set_gate_if_unset 7 x))"
    by (simp add: set_gate_if_unset_def)
  show ?thesis
    using h k billing_failure_is_not_fatal [where c = charge_fails and u = user0 and w = world0
        and r = True and c' = charge_ok and k = "set_gate_if_unset 7" and doc = doc0, OF h k]
    by (simp add: warn_payload_def world0_def)
qed

end
